theory Spec2Isabelle
  imports Complex_Main "HOL-Library.Sublist"
begin

section \<open>JavaScript values used by src/upload/microPython.js\<close>

text \<open>
  Numbers. The file computes with file sizes, block sizes and block counts. They are
  modelled as exact integers together with the three special values a division by zero
  can produce in JavaScript, where \<open>x / 0\<close> does not raise: it is \<open>Infinity\<close> for
  positive \<open>x\<close> and \<open>NaN\<close> for \<open>x = 0\<close>. Rounding of doubles beyond \<open>2^53\<close> is not
  modelled.
\<close>

datatype jsnum = Num int | PosInf | NegInf | NaN

fun js_add :: "jsnum \<Rightarrow> jsnum \<Rightarrow> jsnum" where
  "js_add (Num a) (Num b) = Num (a + b)"
| "js_add NaN _ = NaN"
| "js_add _ NaN = NaN"
| "js_add PosInf NegInf = NaN"
| "js_add NegInf PosInf = NaN"
| "js_add PosInf _ = PosInf"
| "js_add _ PosInf = PosInf"
| "js_add NegInf _ = NegInf"
| "js_add _ NegInf = NegInf"

fun js_neg :: "jsnum \<Rightarrow> jsnum" where
  "js_neg (Num a) = Num (- a)"
| "js_neg PosInf = NegInf"
| "js_neg NegInf = PosInf"
| "js_neg NaN = NaN"

definition js_sub :: "jsnum \<Rightarrow> jsnum \<Rightarrow> jsnum" where
  "js_sub a b = js_add a (js_neg b)"

text \<open>The comparison \<open>a < b\<close>: false as soon as one side is \<open>NaN\<close>.\<close>

fun js_lt :: "jsnum \<Rightarrow> jsnum \<Rightarrow> bool" where
  "js_lt (Num a) (Num b) = (a < b)"
| "js_lt NaN _ = False"
| "js_lt _ NaN = False"
| "js_lt NegInf NegInf = False"
| "js_lt NegInf _ = True"
| "js_lt _ NegInf = False"
| "js_lt PosInf _ = False"
| "js_lt _ PosInf = True"

text \<open>\<open>Math.ceil(a / b)\<close> on integer-valued \<open>a\<close> and \<open>b\<close>.\<close>

definition js_ceil_div :: "int \<Rightarrow> int \<Rightarrow> jsnum" where
  "js_ceil_div a b =
     (if b = 0 then (if a = 0 then NaN else if 0 < a then PosInf else NegInf)
      else Num (- ((- a) div b)))"

text \<open>
  Strings are lists of characters. \<open>s.lastIndexOf(c)\<close> is the index of the last
  occurrence of \<open>c\<close>, or \<open>-1\<close>; \<open>s.substring(i)\<close> is the rest of \<open>s\<close> from index \<open>i\<close>
  (a negative \<open>i\<close> counts as 0).
\<close>

abbreviation backslash :: char where
  "backslash \<equiv> CHR 0x5C"

abbreviation newline :: char where
  "newline \<equiv> CHR 0x0A"

fun lastIndexOf_scan :: "char \<Rightarrow> string \<Rightarrow> int \<Rightarrow> int \<Rightarrow> int" where
  "lastIndexOf_scan c [] i found = found"
| "lastIndexOf_scan c (x # xs) i found =
     lastIndexOf_scan c xs (i + 1) (if x = c then i else found)"

definition lastIndexOf :: "string \<Rightarrow> char \<Rightarrow> int" where
  "lastIndexOf s c = lastIndexOf_scan c s 0 (- 1)"

definition substring :: "string \<Rightarrow> int \<Rightarrow> string" where
  "substring s start = drop (nat start) s"

text \<open>\<open>s.split(c)\<close> for a one-character separator; the empty string gives \<open>['''']\<close>.\<close>

fun split :: "char \<Rightarrow> string \<Rightarrow> string list" where
  "split c [] = [[]]"
| "split c (x # xs) =
     (if x = c then [] # split c xs
      else (case split c xs of [] \<Rightarrow> [[x]] | y # ys \<Rightarrow> (x # y) # ys))"

text \<open>\<open>s.trim()\<close>, on the ASCII white space and line terminators.\<close>

definition isWhite :: "char \<Rightarrow> bool" where
  "isWhite c \<longleftrightarrow> c \<in> set [CHR 0x20, CHR 0x09, CHR 0x0A, CHR 0x0B, CHR 0x0C, CHR 0x0D]"

definition trim :: "string \<Rightarrow> string" where
  "trim s = rev (dropWhile isWhite (rev (dropWhile isWhite s)))"

text \<open>
  The test \<open>!v\<close> on the result of \<open>Array.prototype.find\<close> over strings: \<open>find\<close> gives
  \<open>undefined\<close> (here \<open>None\<close>) or the element found, and the empty string is falsy.
\<close>

definition js_not :: "string option \<Rightarrow> bool" where
  "js_not v = (case v of None \<Rightarrow> True | Some s \<Rightarrow> s = [])"

section \<open>The object and its environment\<close>

text \<open>What a promise of this file can come to.\<close>

datatype reason = Undefined | Message string | HostError string

datatype promise = Resolved | Rejected reason | Unsettled

text \<open>
  How a child process ends: with an exit code, killed by a signal (the \<open>exit\<close> event then
  carries the code \<open>null\<close>), or not started at all. A child that could not be launched
  emits \<open>error\<close> and no \<open>exit\<close>; the file registers listeners for \<open>exit\<close> and for the
  data of \<open>stdout\<close> only.
\<close>

datatype ending = ExitCode int | Signalled | LaunchError

text \<open>
  The processes the file spawns, named by the command that tells them apart; the other
  arguments (module selector, port, delay, reset flag, baud rate, firmware path) decide
  nothing in this file and are left out.
\<close>

datatype cmd = Ls | Restspace | Put string | EraseFlash | WriteFlash | Kflash

text \<open>
  The fields of a \<open>MicroPython\<close> object that \<open>flash\<close> reads or writes, with two logs
  added: what was passed to \<open>_sendstd\<close> (colour escape sequences left out) and which
  processes were spawned, both in order.
\<close>

record MicroPython =
  chip :: string
  projectPath :: string
  codefilePath :: string
  existedLibFile :: "string list"
  bfree :: int
  bsize :: int
  sent :: "string list"
  spawned :: "cmd list"

text \<open>
  The answers of the host's file system and of the spawned tools during one call of
  \<open>flash\<close>. \<open>existsProject\<close> and \<open>existsLib\<close> answer \<open>fs.existsSync\<close> for the
  project directory and for a library directory; a throwing call of \<open>fs\<close> answers with
  the error thrown. A process is given by the chunks its \<open>stdout\<close> delivers, all of
  them taken to arrive before the process ends, and by its ending. The chunks of the
  space query are given by the two fields read from the decoded record,
  \<open>(bsize, bfree)\<close>, taken to be integers. The ending of a \<open>put\<close> may depend on
  everything spawned before it.
\<close>

record host =
  existsProject :: bool
  mkdirSync :: "string \<Rightarrow> reason option"
  writeFileSync :: "string \<Rightarrow> string \<Rightarrow> reason option"
  existsLib :: "string \<Rightarrow> bool"
  readdirSync :: "string \<Rightarrow> reason + string list"
  pathJoin :: "string \<Rightarrow> string \<Rightarrow> string"
  statSync :: "string \<Rightarrow> reason + nat"
  lsProc :: "string list \<times> ending"
  restspaceProc :: "(int \<times> int) list \<times> ending"
  eraseProc :: "string list \<times> ending"
  writeProc :: "string list \<times> ending"
  kflashProc :: "string list \<times> ending"
  putProc :: "cmd list \<Rightarrow> string \<Rightarrow> ending"

definition sendstd :: "string \<Rightarrow> MicroPython \<Rightarrow> MicroPython" where
  "sendstd msg mp = mp\<lparr>sent := sent mp @ [msg]\<rparr>"

definition spawn :: "cmd \<Rightarrow> MicroPython \<Rightarrow> MicroPython" where
  "spawn c mp = mp\<lparr>spawned := spawned mp @ [c]\<rparr>"

text \<open>
  The \<open>exit\<close> listener every promise of the file installs:
  \<open>switch (outCode) { case 0: return resolve(); default: return reject(err); }\<close>.
\<close>

definition onExit :: "ending \<Rightarrow> reason \<Rightarrow> promise" where
  "onExit e err =
     (case e of
        ExitCode c \<Rightarrow> (if c = 0 then Resolved else Rejected err)
      | Signalled \<Rightarrow> Rejected err
      | LaunchError \<Rightarrow> Unsettled)"

section \<open>The space check: judgeReflashFirmware\<close>

text \<open>The key of a path, \<open>file.substring(file.lastIndexOf('\\') + 1)\<close>.\<close>

definition fileNameOf :: "string \<Rightarrow> string" where
  "fileNameOf file = substring file (lastIndexOf file backslash + 1)"

text \<open>The units one file adds to \<open>totalSize\<close>, lines 123 to 129.\<close>

definition requiredUnits :: "string \<Rightarrow> int \<Rightarrow> nat \<Rightarrow> jsnum" where
  "requiredUnits boardType blockSize fileSize =
     (if boardType = ''k210'' then Num (int fileSize)
      else js_ceil_div (int fileSize) blockSize)"

text \<open>
  The \<open>forEach\<close> of lines 118 to 131, with \<open>totalSize\<close> as accumulator. \<open>fs.statSync\<close>
  throws for a path it cannot read; the exception leaves the function.
\<close>

fun totalSize_forEach ::
  "host \<Rightarrow> MicroPython \<Rightarrow> string \<Rightarrow> string list \<Rightarrow> jsnum \<Rightarrow> reason + jsnum" where
  "totalSize_forEach h mp boardType [] totalSize = Inr totalSize"
| "totalSize_forEach h mp boardType (file # rest) totalSize =
     (let fileName = fileNameOf file;
          exsisted = find (\<lambda>item. fileName = item) (existedLibFile mp)
      in if js_not exsisted \<or> fileName = ''main.py'' then
           (case statSync h file of
              Inl err \<Rightarrow> Inl err
            | Inr fileSize \<Rightarrow>
                totalSize_forEach h mp boardType rest
                  (js_add totalSize (requiredUnits boardType (bsize mp) fileSize)))
         else totalSize_forEach h mp boardType rest totalSize)"

definition judgeReflashFirmware ::
  "host \<Rightarrow> MicroPython \<Rightarrow> string list \<Rightarrow> string \<Rightarrow> reason + nat" where
  "judgeReflashFirmware h mp fileToPut boardType =
     (case totalSize_forEach h mp boardType fileToPut (Num 0) of
        Inl err \<Rightarrow> Inl err
      | Inr totalSize \<Rightarrow>
          Inr (if boardType = ''k210'' then
                 (if js_lt (js_sub (Num (bfree mp * bsize mp)) totalSize) (Num 100)
                  then 1 else 0)
               else
                 (if js_lt (js_sub (Num (bfree mp)) totalSize) (Num 2) then 1 else 0)))"

section \<open>The steps of a provisioning run\<close>

abbreviation line :: "string \<Rightarrow> string" where
  "line s \<equiv> s @ [newline]"

text \<open>Live forwarding of a tool's output to \<open>_sendstd\<close>, chunk by chunk.\<close>

definition forward :: "string list \<Rightarrow> MicroPython \<Rightarrow> MicroPython" where
  "forward chunks mp = foldl (\<lambda>m buf. sendstd buf m) mp chunks"

text \<open>
  The listing, lines 200 to 205: trimmed, every \<open>/\<close> and carriage return removed, split
  at the line feeds. Each chunk of output replaces the list.
\<close>

definition parseListing :: "string \<Rightarrow> string list" where
  "parseListing buf =
     split newline (filter (\<lambda>c. c \<noteq> CHR ''/'' \<and> c \<noteq> CHR 0x0D) (trim buf))"

definition checkLibFileList :: "host \<Rightarrow> MicroPython \<Rightarrow> promise \<times> MicroPython" where
  "checkLibFileList h mp =
     (let mp1 = spawn Ls (sendstd (line ''Try to enter raw REPL.'') mp);
          mp2 = foldl (\<lambda>m buf. m\<lparr>existedLibFile := parseListing buf\<rparr>) mp1 (fst (lsProc h))
      in (onExit (snd (lsProc h)) Undefined, mp2))"

definition checkRestSpace :: "host \<Rightarrow> MicroPython \<Rightarrow> promise \<times> MicroPython" where
  "checkRestSpace h mp =
     (let mp1 = spawn Restspace (sendstd (line ''Try to check rest space.'') mp);
          mp2 = foldl (\<lambda>m (bs, bf). m\<lparr>bsize := bs, bfree := bf\<rparr>) mp1
                  (fst (restspaceProc h))
      in (onExit (snd (restspaceProc h)) Undefined, mp2))"

definition obmpyPut :: "host \<Rightarrow> string \<Rightarrow> MicroPython \<Rightarrow> promise \<times> MicroPython" where
  "obmpyPut h file mp =
     (let r = onExit (putProc h (spawned mp) file) (Message ''obmpy failed to write'');
          mp1 = spawn (Put file) mp
      in (r, if r = Resolved then sendstd (line (file @ '' write finish'')) mp1 else mp1))"

text \<open>The two closures of \<open>espflashFirmware\<close>, \<open>erase\<close> and \<open>flash\<close>.\<close>

definition esp_erase :: "host \<Rightarrow> MicroPython \<Rightarrow> promise \<times> MicroPython" where
  "esp_erase h mp =
     (onExit (snd (eraseProc h)) (Message ''esptool failed to erase''),
      forward (fst (eraseProc h)) (spawn EraseFlash mp))"

definition esp_flash :: "host \<Rightarrow> MicroPython \<Rightarrow> promise \<times> MicroPython" where
  "esp_flash h mp =
     (if chip mp = ''esp32'' \<or> chip mp = ''esp8266'' then
        (onExit (snd (writeProc h)) (Message ''esptool failed flash''),
         forward (fst (writeProc h)) (spawn WriteFlash mp))
      else (Rejected (Message ''unknown chip type''), mp))"

definition espflashFirmware :: "host \<Rightarrow> MicroPython \<Rightarrow> promise \<times> MicroPython" where
  "espflashFirmware h mp =
     (let (r, mp1) = esp_erase h mp
      in if r = Resolved then esp_flash h mp1 else (r, mp1))"

definition k210flashFirmware :: "host \<Rightarrow> MicroPython \<Rightarrow> promise \<times> MicroPython" where
  "k210flashFirmware h mp =
     (onExit (snd (kflashProc h)) (Message ''kflash failed flash''),
      forward (fst (kflashProc h)) (spawn Kflash mp))"

definition flashFirmware :: "host \<Rightarrow> MicroPython \<Rightarrow> promise \<times> MicroPython" where
  "flashFirmware h mp =
     (if chip mp = ''esp32'' \<or> chip mp = ''esp8266'' then espflashFirmware h mp
      else if chip mp = ''k210'' then k210flashFirmware h mp
      else (Rejected (Message ''unknown chip type''), mp))"

section \<open>flash\<close>

text \<open>
  Lines 40 to 61: the project directory, the code file, then \<open>fileToPut\<close>, which starts
  with the code file and gets the entries of every existing library directory. An
  exception of \<open>mkdirSync\<close> or \<open>readdirSync\<close> rejects the promise of the async function.
\<close>

fun scanLibraries :: "host \<Rightarrow> string list \<Rightarrow> string list \<Rightarrow> reason + string list" where
  "scanLibraries h [] fileToPut = Inr fileToPut"
| "scanLibraries h (lib # rest) fileToPut =
     (if existsLib h lib then
        (case readdirSync h lib of
           Inl err \<Rightarrow> Inl err
         | Inr libraries \<Rightarrow>
             scanLibraries h rest (fileToPut @ map (pathJoin h lib) libraries))
      else scanLibraries h rest fileToPut)"

definition prepareFiles ::
  "host \<Rightarrow> string \<Rightarrow> string list \<Rightarrow> MicroPython \<Rightarrow> reason + string list" where
  "prepareFiles h code library mp =
     (case (if \<not> existsProject h then mkdirSync h (projectPath mp) else None) of
        Some err \<Rightarrow> Inl err
      | None \<Rightarrow>
          (case writeFileSync h (codefilePath mp) code of
             Some err \<Rightarrow> Inl err
           | None \<Rightarrow> scanLibraries h library [codefilePath mp]))"

text \<open>
  How a block of the async function is left: it runs to its end, it returns a promise
  (an \<open>await\<close> on a promise that never settles never returns: the function's own promise
  then stays unsettled), or it throws.
\<close>

datatype flow = Continue | Return promise | Throw reason

text \<open>Lines 68 to 81, after both queries have resolved.\<close>

definition reflashIfFull :: "host \<Rightarrow> string list \<Rightarrow> MicroPython \<Rightarrow> flow \<times> MicroPython" where
  "reflashIfFull h fileToPut mp =
     (case judgeReflashFirmware h mp fileToPut (chip mp) of
        Inl err \<Rightarrow> (Throw err, mp)
      | Inr reflashFirmware \<Rightarrow>
          if reflashFirmware \<noteq> 0 then
            (let mp1 = sendstd (line ''The space of board is insufficient.'') mp;
                 mp2 = sendstd (line (''Try to flash micropython firmware to '' @
                                      ''refresh the memory space of the board.'')) mp1;
                 mp3 = mp2\<lparr>existedLibFile := []\<rparr>;
                 (r, mp4) = flashFirmware h mp3
             in if r = Resolved then (Continue, mp4) else (Return r, mp4))
          else (Continue, mp))"

text \<open>The body of the \<open>try\<close>, lines 65 to 81.\<close>

definition tryDiscovery :: "host \<Rightarrow> string list \<Rightarrow> MicroPython \<Rightarrow> flow \<times> MicroPython" where
  "tryDiscovery h fileToPut mp =
     (let (r1, mp1) = checkLibFileList h mp
      in case r1 of
           Rejected err \<Rightarrow> (Throw err, mp1)
         | Unsettled \<Rightarrow> (Return Unsettled, mp1)
         | Resolved \<Rightarrow>
             (let (r2, mp2) = checkRestSpace h mp1
              in case r2 of
                   Rejected err \<Rightarrow> (Throw err, mp2)
                 | Unsettled \<Rightarrow> (Return Unsettled, mp2)
                 | Resolved \<Rightarrow> reflashIfFull h fileToPut mp2))"

text \<open>
  Lines 63 to 91, the \<open>try\<close> with its \<open>catch\<close>. The result \<open>Resolved\<close> stands for going
  on to line 93; any other result is what \<open>flash\<close> returns.
\<close>

definition discoverOrReflash ::
  "host \<Rightarrow> string list \<Rightarrow> MicroPython \<Rightarrow> promise \<times> MicroPython" where
  "discoverOrReflash h fileToPut mp =
     (let (fl, mp1) = tryDiscovery h fileToPut mp
      in case fl of
           Continue \<Rightarrow> (Resolved, mp1)
         | Return r \<Rightarrow> (r, mp1)
         | Throw err \<Rightarrow>
             (let mp2 = sendstd (line ''Could not enter raw REPL.'') mp1;
                  mp3 = sendstd (line ''Try to flash micro python firmware to fix.'') mp2
              in flashFirmware h mp3))"

text \<open>
  The loop of lines 95 to 108. The result \<open>Resolved\<close> stands for the loop running to its
  end.
\<close>

fun writeFiles :: "host \<Rightarrow> string list \<Rightarrow> MicroPython \<Rightarrow> promise \<times> MicroPython" where
  "writeFiles h [] mp = (Resolved, mp)"
| "writeFiles h (file # rest) mp =
     (let fileName = fileNameOf file;
          pushed = find (\<lambda>item. fileName = item) (existedLibFile mp)
      in if js_not pushed \<or> fileName = ''main.py'' then
           (let (r, mp1) = obmpyPut h file mp
            in if r = Resolved then writeFiles h rest mp1 else (r, mp1))
         else writeFiles h rest (sendstd (line (file @ '' already writed'')) mp))"

text \<open>Lines 93 to 111.\<close>

definition writePhase ::
  "host \<Rightarrow> string list \<Rightarrow> MicroPython \<Rightarrow> promise \<times> MicroPython" where
  "writePhase h fileToPut mp =
     (let (r, mp1) = writeFiles h fileToPut (sendstd (line ''Writing files...'') mp)
      in if r = Resolved then (Resolved, sendstd (line ''Success'') mp1) else (r, mp1))"

definition flash ::
  "host \<Rightarrow> string \<Rightarrow> string list \<Rightarrow> MicroPython \<Rightarrow> promise \<times> MicroPython" where
  "flash h code library mp =
     (case prepareFiles h code library mp of
        Inl err \<Rightarrow> (Rejected err, mp)
      | Inr fileToPut \<Rightarrow>
          (let (r, mp1) = discoverOrReflash h fileToPut mp
           in if r = Resolved then writePhase h fileToPut mp1 else (r, mp1)))"

text \<open>The fields as the constructor leaves them.\<close>

definition constructor :: "string \<Rightarrow> string \<Rightarrow> string \<Rightarrow> MicroPython" where
  "constructor chipName project codefile =
     \<lparr>chip = chipName, projectPath = project, codefilePath = codefile,
      existedLibFile = [], bfree = - 1, bsize = 0, sent = [], spawned = []\<rparr>"

section \<open>Notions used to state the properties\<close>

text \<open>
  The files the space check counts and the write loop writes: the ones named
  \<open>main.py\<close>, the ones whose name is not in the list, and the ones with an empty name.
\<close>

definition counted :: "string list \<Rightarrow> string \<Rightarrow> bool" where
  "counted existing file \<longleftrightarrow>
     fileNameOf file = ''main.py'' \<or> fileNameOf file \<notin> set existing \<or> fileNameOf file = []"




text \<open>What \<open>flashFirmware\<close> spawns for a chip, and the tools' exits it needs to resolve.\<close>

definition flasherTrace :: "host \<Rightarrow> string \<Rightarrow> cmd list" where
  "flasherTrace h c =
     (if c = ''esp32'' \<or> c = ''esp8266'' then
        EraseFlash # (if snd (eraseProc h) = ExitCode 0 then [WriteFlash] else [])
      else if c = ''k210'' then [Kflash] else [])"

text \<open>A step fails: its process exits with a status other than zero.\<close>

definition exitsNonZero :: "ending \<Rightarrow> bool" where
  "exitsNonZero e \<longleftrightarrow> (case e of ExitCode c \<Rightarrow> c \<noteq> 0 | _ \<Rightarrow> False)"

section \<open>Concrete runs\<close>

text \<open>
  A host with backslash paths on which everything succeeds: the project holds
  \<open>main.py\<close> (50 bytes), the one library directory holds \<open>a.py\<close> (30 bytes), the board
  is empty and reports 10 free blocks of 16 bytes.
\<close>

definition winJoin :: "string \<Rightarrow> string \<Rightarrow> string" where
  "winJoin d f = d @ [backslash] @ f"

definition demoProject :: string where
  "demoProject = ''C:'' @ [backslash] @ ''p''"

definition demoMain :: string where
  "demoMain = ''C:'' @ [backslash] @ ''p'' @ [backslash] @ ''main.py''"

definition demoLib :: string where
  "demoLib = ''C:'' @ [backslash] @ ''lib''"

definition demoA :: string where
  "demoA = ''C:'' @ [backslash] @ ''lib'' @ [backslash] @ ''a.py''"

definition demoSize :: "string \<Rightarrow> nat" where
  "demoSize f = (if fileNameOf f = ''main.py'' then 50 else 30)"

definition demoHost :: host where
  "demoHost =
     \<lparr>existsProject = True, mkdirSync = (\<lambda>_. None), writeFileSync = (\<lambda>_ _. None),
      existsLib = (\<lambda>_. True), readdirSync = (\<lambda>_. Inr [''a.py'']), pathJoin = winJoin,
      statSync = (\<lambda>f. Inr (demoSize f)),
      lsProc = ([], ExitCode 0),
      restspaceProc = ([(16, 10)], ExitCode 0),
      eraseProc = ([], ExitCode 0), writeProc = ([], ExitCode 0),
      kflashProc = ([], ExitCode 0),
      putProc = (\<lambda>_ _. ExitCode 0)\<rparr>"

definition demoBoard :: "string \<Rightarrow> MicroPython" where
  "demoBoard chipName = constructor chipName demoProject demoMain"

text \<open>
  The same host with a board that already holds \<open>boot.py\<close>, \<open>main.py\<close> and
  \<open>a.py\<close>.
\<close>

definition listingHost :: host where
  "listingHost =
     demoHost\<lparr>lsProc := ([''/boot.py'' @ [CHR 0x0D, newline] @ ''/main.py'' @
                          [CHR 0x0D, newline] @ ''/a.py'' @ [newline]], ExitCode 0)\<rparr>"

text \<open>
  A host with slash paths. Its library directory holds one file, whose name ends in a
  backslash; the listing of its board has an empty line.
\<close>

definition posixJoin :: "string \<Rightarrow> string \<Rightarrow> string" where
  "posixJoin d f = d @ ''/'' @ f"

definition oddFile :: string where
  "oddFile = ''/lib/x'' @ [backslash]"

definition posixHost :: host where
  "posixHost =
     demoHost\<lparr>pathJoin := posixJoin, readdirSync := (\<lambda>_. Inr [''x'' @ [backslash]]),
               statSync := (\<lambda>_. Inr 10),
               lsProc := ([''a.py'' @ [newline, newline] @ ''b.py''], ExitCode 0)\<rparr>"

definition posixBoard :: "string \<Rightarrow> MicroPython" where
  "posixBoard chipName = constructor chipName ''/p'' ''/p/main.py''"

text \<open>
  The state of a k210 board on the slash host after both queries, the board reporting 115
  free blocks of one byte.
\<close>

definition oddHost :: host where
  "oddHost = posixHost\<lparr>restspaceProc := ([(1, 115)], ExitCode 0)\<rparr>"


text \<open>The first host with a project file that cannot be written.\<close>

definition noWriteHost :: host where
  "noWriteHost = demoHost\<lparr>writeFileSync := (\<lambda>_ _. Some (HostError ''EACCES''))\<rparr>"

text \<open>The first host with a board that refuses \<open>main.py\<close>.\<close>

definition failPutHost :: host where
  "failPutHost =
     demoHost\<lparr>putProc := (\<lambda>_ f. if f = demoMain then ExitCode 1 else ExitCode 0)\<rparr>"

text \<open>
  Discovery fails: the listing exits with a non-zero status, or the listing exits with
  zero and the space query with a non-zero status. The processes discovery spawns.
\<close>

definition discoveryFails :: "host \<Rightarrow> bool" where
  "discoveryFails h \<longleftrightarrow>
     exitsNonZero (snd (lsProc h)) \<or>
     (snd (lsProc h) = ExitCode 0 \<and> exitsNonZero (snd (restspaceProc h)))"

definition discoveryTrace :: "host \<Rightarrow> cmd list" where
  "discoveryTrace h = (if snd (lsProc h) = ExitCode 0 then [Ls, Restspace] else [Ls])"

text \<open>
  The board that holds three files, with a space query that exits with status 1, and
  with one that exits with status 0 without any output.
\<close>

definition spaceFailHost :: host where
  "spaceFailHost = listingHost\<lparr>restspaceProc := ([], ExitCode 1)\<rparr>"

definition silentSpaceHost :: host where
  "silentSpaceHost = listingHost\<lparr>restspaceProc := ([], ExitCode 0)\<rparr>"

text \<open>
  The conditions under which \<open>flash\<close> calls \<open>flashFirmware\<close>: discovery fails, or
  both queries exit with status zero and the decision is not 0 (it is 1, or
  \<open>statSync\<close> has thrown).
\<close>

definition reflashStarts :: "host \<Rightarrow> string list \<Rightarrow> MicroPython \<Rightarrow> bool" where
  "reflashStarts h files mp \<longleftrightarrow>
     discoveryFails h \<or>
     (snd (lsProc h) = ExitCode 0 \<and> snd (restspaceProc h) = ExitCode 0 \<and>
      judgeReflashFirmware h (snd (checkRestSpace h (snd (checkLibFileList h mp)))) files
        (chip mp) \<noteq> Inr 0)"

text \<open>
  Hosts whose eraser fails: it exits with status 2 after a failed space query, or it
  cannot be launched.
\<close>

definition eraseFailHost :: host where
  "eraseFailHost = spaceFailHost\<lparr>eraseProc := ([], ExitCode 2)\<rparr>"

definition noEraserHost :: host where
  "noEraserHost = demoHost\<lparr>eraseProc := ([], LaunchError)\<rparr>"

section \<open>Space units\<close>

text \<open>
  C3. For every file size \<open>s\<close> and block size \<open>b > 0\<close>, the units of one file are \<open>s\<close> for
  the k210 and \<open>ceil (s / b)\<close> for every other board type (esp32 and esp8266 among
  them), and they do not decrease when the file grows.
\<close>

theorem requiredUnits_exact_and_monotone:
  "0 < b \<Longrightarrow>
     requiredUnits ''k210'' b s = Num (int s) \<and>
     (boardType \<noteq> ''k210'' \<longrightarrow>
        requiredUnits boardType b s = Num \<lceil>real s / real_of_int b\<rceil>) \<and>
     (s \<le> s' \<longrightarrow>
        (\<exists>u u'. requiredUnits boardType b s = Num u \<and>
                requiredUnits boardType b s' = Num u' \<and> u \<le> u'))"
proof -
  assume pos: "0 < b"
  have k: "requiredUnits ''k210'' b s = Num (int s)"
    by (simp add: requiredUnits_def)
  have c: "\<lceil>real s / real_of_int b\<rceil> = - ((- int s) div b)"
    using ceiling_divide_eq_div [of "int s" b, where ?'a = real] by simp
  have e: "boardType \<noteq> ''k210'' \<longrightarrow>
             requiredUnits boardType b s = Num \<lceil>real s / real_of_int b\<rceil>"
    using pos c by (simp add: requiredUnits_def js_ceil_div_def)
  have m: "s \<le> s' \<longrightarrow>
        (\<exists>u u'. requiredUnits boardType b s = Num u \<and>
                requiredUnits boardType b s' = Num u' \<and> u \<le> u')"
  proof
    assume le: "s \<le> s'"
    have "(- int s') div b \<le> (- int s) div b"
      using le pos by (intro zdiv_mono1) simp_all
    then show "\<exists>u u'. requiredUnits boardType b s = Num u \<and>
                  requiredUnits boardType b s' = Num u' \<and> u \<le> u'"
      using le pos by (simp add: requiredUnits_def js_ceil_div_def)
  qed
  from k e m show ?thesis by blast
qed

theorem requiredUnits_exact_and_monotone_witness:
  "(0::int) < 16 \<and>
   requiredUnits ''k210'' 16 50 = Num 50 \<and>
   ''esp32'' \<noteq> ''k210'' \<and>
   requiredUnits ''esp32'' 16 50 = Num 4 \<and>
   (30::nat) \<le> 50 \<and>
   (\<exists>u u'. requiredUnits ''esp32'' 16 30 = Num u \<and>
           requiredUnits ''esp32'' 16 50 = Num u' \<and> u \<le> u')"
proof -
  have b: "(0::int) < 16" by simp
  have c: "\<lceil>real 50 / real_of_int 16\<rceil> = (4::int)"
    by (simp add: ceiling_eq_iff)
  show ?thesis
    using requiredUnits_exact_and_monotone [OF b, of 50 "''esp32''" 30] c
      requiredUnits_exact_and_monotone [OF b, of 30 "''esp32''" 50]
    by simp
qed

section \<open>Basic facts\<close>

lemmas run_defs = checkLibFileList_def checkRestSpace_def parseListing_def trim_def isWhite_def
  onExit_def sendstd_def spawn_def constructor_def Let_def

lemma fileNameOf_demo [simp]:
  "fileNameOf demoMain = ''main.py''" "fileNameOf demoA = ''a.py''"
  "fileNameOf ''/p/main.py'' = ''/p/main.py''" "fileNameOf oddFile = []"
  by (simp_all add: fileNameOf_def lastIndexOf_def substring_def demoMain_def demoA_def oddFile_def)



lemma js_add_zero [simp]: "js_add a (Num 0) = a" "js_add (Num 0) a = a"
  by (cases a; simp)+

lemma js_not_find: "js_not (find (\<lambda>item. k = item) xs) \<longleftrightarrow> k \<notin> set xs \<or> k = []"
  by (induction xs) (auto simp: js_not_def)

lemma counted_iff:
  "js_not (find (\<lambda>item. fileNameOf file = item) existing) \<or> fileNameOf file = ''main.py''
     \<longleftrightarrow> counted existing file"
  by (auto simp: js_not_find counted_def)





section \<open>The reflash decision\<close>




lemma sendstd_fields [simp]:
  "spawned (sendstd m mp) = spawned mp" "existedLibFile (sendstd m mp) = existedLibFile mp"
  "chip (sendstd m mp) = chip mp" "bsize (sendstd m mp) = bsize mp"
  "bfree (sendstd m mp) = bfree mp" "sent (sendstd m mp) = sent mp @ [m]"
  by (simp_all add: sendstd_def)

lemma spawn_fields [simp]:
  "spawned (spawn c mp) = spawned mp @ [c]" "existedLibFile (spawn c mp) = existedLibFile mp"
  "chip (spawn c mp) = chip mp" "bsize (spawn c mp) = bsize mp"
  "bfree (spawn c mp) = bfree mp" "sent (spawn c mp) = sent mp"
  by (simp_all add: spawn_def)

lemma forward_fields [simp]:
  "spawned (forward cs mp) = spawned mp" "existedLibFile (forward cs mp) = existedLibFile mp"
  "chip (forward cs mp) = chip mp" "bsize (forward cs mp) = bsize mp"
  "bfree (forward cs mp) = bfree mp" "sent (forward cs mp) = sent mp @ cs"
  by (induction cs arbitrary: mp; simp add: forward_def)+

lemma listing_foldl:
  "foldl (\<lambda>m buf. m\<lparr>existedLibFile := parseListing buf\<rparr>) mp cs =
     (if cs = [] then mp else mp\<lparr>existedLibFile := parseListing (last cs)\<rparr>)"
  by (induction cs arbitrary: mp) simp_all

lemma space_foldl:
  "foldl (\<lambda>m (bs, bf). m\<lparr>bsize := bs, bfree := bf\<rparr>) mp cs =
     (if cs = [] then mp else mp\<lparr>bsize := fst (last cs), bfree := snd (last cs)\<rparr>)"
  by (induction cs arbitrary: mp) (simp_all add: split_def)

lemma checkLibFileList_fields [simp]:
  "fst (checkLibFileList h mp) = onExit (snd (lsProc h)) Undefined"
  "spawned (snd (checkLibFileList h mp)) = spawned mp @ [Ls]"
  "chip (snd (checkLibFileList h mp)) = chip mp"
  "bsize (snd (checkLibFileList h mp)) = bsize mp"
  "bfree (snd (checkLibFileList h mp)) = bfree mp"
  "existedLibFile (snd (checkLibFileList h mp)) =
     (if fst (lsProc h) = [] then existedLibFile mp else parseListing (last (fst (lsProc h))))"
  by (simp_all add: checkLibFileList_def listing_foldl Let_def)

lemma checkRestSpace_fields [simp]:
  "fst (checkRestSpace h mp) = onExit (snd (restspaceProc h)) Undefined"
  "spawned (snd (checkRestSpace h mp)) = spawned mp @ [Restspace]"
  "chip (snd (checkRestSpace h mp)) = chip mp"
  "existedLibFile (snd (checkRestSpace h mp)) = existedLibFile mp"
  "bsize (snd (checkRestSpace h mp)) =
     (if fst (restspaceProc h) = [] then bsize mp else fst (last (fst (restspaceProc h))))"
  "bfree (snd (checkRestSpace h mp)) =
     (if fst (restspaceProc h) = [] then bfree mp else snd (last (fst (restspaceProc h))))"
  by (simp_all add: checkRestSpace_def space_foldl Let_def)

lemma obmpyPut_fields [simp]:
  "fst (obmpyPut h f mp) = onExit (putProc h (spawned mp) f) (Message ''obmpy failed to write'')"
  "spawned (snd (obmpyPut h f mp)) = spawned mp @ [Put f]"
  "chip (snd (obmpyPut h f mp)) = chip mp"
  "existedLibFile (snd (obmpyPut h f mp)) = existedLibFile mp"
  by (simp_all add: obmpyPut_def Let_def)

lemma flashFirmware_fields [simp]:
  "spawned (snd (flashFirmware h mp)) = spawned mp @ flasherTrace h (chip mp)"
  "chip (snd (flashFirmware h mp)) = chip mp"
  "existedLibFile (snd (flashFirmware h mp)) = existedLibFile mp"
  by (simp_all add: flashFirmware_def espflashFirmware_def esp_erase_def esp_flash_def
      k210flashFirmware_def flasherTrace_def onExit_def split: ending.splits)

lemma flashFirmware_result_chip:
  "chip mp = chip mp' \<Longrightarrow> fst (flashFirmware h mp) = fst (flashFirmware h mp')"
  by (simp add: flashFirmware_def espflashFirmware_def esp_erase_def esp_flash_def
      k210flashFirmware_def)

lemma onExit_Resolved [simp]: "onExit e err = Resolved \<longleftrightarrow> e = ExitCode 0"
  by (simp add: onExit_def split: ending.splits)

lemma onExit_nonzero: "exitsNonZero e \<Longrightarrow> onExit e err = Rejected err"
  by (simp add: onExit_def exitsNonZero_def split: ending.splits)

text \<open>The write loop, one file at a time.\<close>

lemma writeFiles_Cons:
  "writeFiles h (f # fs) mp =
     (if counted (existedLibFile mp) f then
        (if putProc h (spawned mp) f = ExitCode 0 then writeFiles h fs (snd (obmpyPut h f mp))
         else obmpyPut h f mp)
      else writeFiles h fs (sendstd (line (f @ '' already writed'')) mp))"
  by (simp add: counted_iff split_def Let_def prod_eq_iff del: find.simps)

declare writeFiles.simps(2) [simp del]

lemma writeFiles_existed [simp]:
  "existedLibFile (snd (writeFiles h fs mp)) = existedLibFile mp"
  by (induction fs arbitrary: mp) (simp_all add: writeFiles_Cons)

lemma writeFiles_chip [simp]: "chip (snd (writeFiles h fs mp)) = chip mp"
  by (induction fs arbitrary: mp) (simp_all add: writeFiles_Cons)

lemma writeFiles_append:
  "writeFiles h (fs @ gs) mp =
     (if fst (writeFiles h fs mp) = Resolved then writeFiles h gs (snd (writeFiles h fs mp))
      else writeFiles h fs mp)"
  by (induction fs arbitrary: mp) (simp_all add: writeFiles_Cons)

lemma writeFiles_trace:
  "\<exists>ps. spawned (snd (writeFiles h fs mp)) = spawned mp @ map Put ps \<and>
        prefix ps (filter (counted (existedLibFile mp)) fs) \<and>
        (fst (writeFiles h fs mp) = Resolved \<longrightarrow> ps = filter (counted (existedLibFile mp)) fs)"
proof (induction fs arbitrary: mp)
  case Nil
  then show ?case by simp
next
  case (Cons f fs)
  show ?case
  proof (cases "counted (existedLibFile mp) f")
    case False
    from Cons.IH [of "sendstd (line (f @ '' already writed'')) mp"] False show ?thesis
      by (simp add: writeFiles_Cons)
  next
    case True
    show ?thesis
    proof (cases "putProc h (spawned mp) f = ExitCode 0")
      case ok: True
      from Cons.IH [of "snd (obmpyPut h f mp)"] obtain ps where
        ps: "spawned (snd (writeFiles h fs (snd (obmpyPut h f mp)))) = (spawned mp @ [Put f]) @ map Put ps"
          "prefix ps (filter (counted (existedLibFile mp)) fs)"
          "fst (writeFiles h fs (snd (obmpyPut h f mp))) = Resolved \<longrightarrow>
             ps = filter (counted (existedLibFile mp)) fs"
        by auto
      with True ok show ?thesis
        by (intro exI [of _ "f # ps"]) (simp add: writeFiles_Cons)
    next
      case bad: False
      with True show ?thesis
        by (intro exI [of _ "[f]"]) (simp add: writeFiles_Cons)
    qed
  qed
qed

lemmas host_defs = demoHost_def listingHost_def posixHost_def oddHost_def noWriteHost_def failPutHost_def
  spaceFailHost_def silentSpaceHost_def eraseFailHost_def noEraserHost_def
  demoBoard_def posixBoard_def winJoin_def posixJoin_def demoSize_def

lemmas flash_defs = flash_def prepareFiles_def discoverOrReflash_def tryDiscovery_def
  reflashIfFull_def writePhase_def flashFirmware_def espflashFirmware_def esp_erase_def
  esp_flash_def k210flashFirmware_def forward_def obmpyPut_def judgeReflashFirmware_def
  requiredUnits_def js_ceil_div_def js_sub_def js_not_def

section \<open>Failure to write the project file\<close>

text \<open>
  C10. If \<open>writeFileSync\<close> throws for the code file (the project directory existing or
  having been created), \<open>flash\<close> rejects with that error and leaves the object as it was:
  no process has been spawned, nothing has been sent, and the list of existing files and
  the space fields are unchanged.
\<close>

theorem flash_writeFile_failure:
  "(existsProject h \<or> mkdirSync h (projectPath mp) = None) \<Longrightarrow>
   writeFileSync h (codefilePath mp) code = Some err \<Longrightarrow>
   flash h code library mp = (Rejected err, mp)"
  by (auto simp: flash_def prepareFiles_def)

theorem flash_writeFile_failure_witness:
  "(existsProject noWriteHost \<or> mkdirSync noWriteHost (projectPath (demoBoard ''esp32'')) = None) \<and>
   writeFileSync noWriteHost (codefilePath (demoBoard ''esp32'')) ''code'' = Some (HostError ''EACCES'') \<and>
   flash noWriteHost ''code'' [demoLib] (demoBoard ''esp32'') =
     (Rejected (HostError ''EACCES''), demoBoard ''esp32'') \<and>
   spawned (demoBoard ''esp32'') = []"
proof -
  have a: "existsProject noWriteHost \<or> mkdirSync noWriteHost (projectPath (demoBoard ''esp32'')) = None"
    by (simp add: noWriteHost_def demoHost_def)
  have b: "writeFileSync noWriteHost (codefilePath (demoBoard ''esp32'')) ''code'' = Some (HostError ''EACCES'')"
    by (simp add: noWriteHost_def demoHost_def)
  from flash_writeFile_failure [OF a b, of "[demoLib]"] a b show ?thesis
    by (simp add: demoBoard_def constructor_def)
qed

section \<open>The order of the writes\<close>



lemma writeFiles_failure:
  assumes "fst (writeFiles h pre mp) = Resolved"
      and "counted (existedLibFile mp) f"
      and "putProc h (spawned (snd (writeFiles h pre mp))) f \<noteq> ExitCode 0"
  shows "writeFiles h (pre @ f # post) mp = obmpyPut h f (snd (writeFiles h pre mp))"
  using assms by (simp add: writeFiles_append writeFiles_Cons)



lemma flash_continue:
  "prepareFiles h code library mp = Inr files \<Longrightarrow>
   discoverOrReflash h files mp = (Resolved, mp1) \<Longrightarrow>
   flash h code library mp = writePhase h files mp1"
  by (simp add: flash_def)


lemma failPut_prepare:
  "prepareFiles failPutHost ''code'' [demoLib] (demoBoard ''esp32'') = Inr [demoMain, demoA]"
  by (simp add: prepareFiles_def host_defs constructor_def demoLib_def demoMain_def demoA_def)

lemma failPut_discover:
  "discoverOrReflash failPutHost [demoMain, demoA] (demoBoard ''esp32'') =
     (Resolved,
      (demoBoard ''esp32'')
        \<lparr>bfree := 10, bsize := 16,
         sent := [line ''Try to enter raw REPL.'', line ''Try to check rest space.''],
         spawned := [Ls, Restspace]\<rparr>)"
  by (simp add: flash_defs host_defs run_defs)


section \<open>What the write loop writes and what it skips\<close>





lemma writePhase_fields [simp]:
  "fst (writePhase h fs mp) = fst (writeFiles h fs (sendstd (line ''Writing files...'') mp))"
  "spawned (snd (writePhase h fs mp)) =
     spawned (snd (writeFiles h fs (sendstd (line ''Writing files...'') mp)))"
  "existedLibFile (snd (writePhase h fs mp)) = existedLibFile mp"
  "chip (snd (writePhase h fs mp)) = chip mp"
  by (simp_all add: writePhase_def split_def Let_def)











section \<open>The key of a manifest path\<close>









section \<open>Failed discovery\<close>

lemma onExit_zero [simp]: "onExit (ExitCode 0) err = Resolved"
  by (simp add: onExit_def)

lemma onExit_cases:
  "onExit e err = Resolved \<or> onExit e err = Rejected err \<or> onExit e err = Unsettled"
  by (simp add: onExit_def split: ending.splits)

lemma flashFirmware_result:
  "fst (flashFirmware h mp) = Resolved \<or> fst (flashFirmware h mp) = Unsettled \<or>
   (\<exists>msg. fst (flashFirmware h mp) = Rejected (Message msg))"
  using onExit_cases [of "snd (eraseProc h)" "Message ''esptool failed to erase''"]
    onExit_cases [of "snd (writeProc h)" "Message ''esptool failed flash''"]
    onExit_cases [of "snd (kflashProc h)" "Message ''kflash failed flash''"]
  by (auto simp: flashFirmware_def espflashFirmware_def esp_erase_def esp_flash_def
      k210flashFirmware_def)

lemma writeFiles_result:
  "fst (writeFiles h fs mp) = Resolved \<or> fst (writeFiles h fs mp) = Unsettled \<or>
   fst (writeFiles h fs mp) = Rejected (Message ''obmpy failed to write'')"
proof (induction fs arbitrary: mp)
  case Nil
  then show ?case by simp
next
  case (Cons f fs)
  from onExit_cases [of "putProc h (spawned mp) f" "Message ''obmpy failed to write''"]
    Cons.IH [of "snd (obmpyPut h f mp)"] Cons.IH [of "sendstd (line (f @ '' already writed'')) mp"]
  show ?case
    by (auto simp: writeFiles_Cons)
qed

lemma tryDiscovery_fails:
  assumes "discoveryFails h"
  shows "\<exists>mpd. tryDiscovery h files mp = (Throw Undefined, mpd) \<and>
               spawned mpd = spawned mp @ discoveryTrace h \<and> chip mpd = chip mp"
proof (cases "snd (lsProc h) = ExitCode 0")
  case True
  with assms have "exitsNonZero (snd (restspaceProc h))"
    by (simp add: discoveryFails_def exitsNonZero_def)
  then have "onExit (snd (restspaceProc h)) Undefined = Rejected Undefined"
    by (rule onExit_nonzero)
  with True have "tryDiscovery h files mp =
      (Throw Undefined, snd (checkRestSpace h (snd (checkLibFileList h mp))))"
    by (simp add: tryDiscovery_def split_def Let_def)
  with True show ?thesis
    by (simp add: discoveryTrace_def)
next
  case False
  with assms have "exitsNonZero (snd (lsProc h))"
    by (simp add: discoveryFails_def)
  then have "onExit (snd (lsProc h)) Undefined = Rejected Undefined"
    by (rule onExit_nonzero)
  then have "tryDiscovery h files mp = (Throw Undefined, snd (checkLibFileList h mp))"
    by (simp add: tryDiscovery_def split_def Let_def)
  with False show ?thesis
    by (simp add: discoveryTrace_def)
qed

lemma discoverOrReflash_fails:
  assumes "discoveryFails h"
  shows "\<exists>mpd. discoverOrReflash h files mp = flashFirmware h mpd \<and>
               spawned mpd = spawned mp @ discoveryTrace h \<and> chip mpd = chip mp"
proof -
  from tryDiscovery_fails [OF assms] obtain mpd where
    d: "tryDiscovery h files mp = (Throw Undefined, mpd)"
       "spawned mpd = spawned mp @ discoveryTrace h" "chip mpd = chip mp"
    by blast
  let ?m = "sendstd (line ''Try to flash micro python firmware to fix.'')
              (sendstd (line ''Could not enter raw REPL.'') mpd)"
  from d(1) have "discoverOrReflash h files mp = flashFirmware h ?m"
    by (simp add: discoverOrReflash_def Let_def)
  moreover from d have "spawned ?m = spawned mp @ discoveryTrace h" "chip ?m = chip mp"
    by simp_all
  ultimately show ?thesis by blast
qed

text \<open>What a run does once \<open>flashFirmware\<close> has been called in state \<open>mpd\<close>.\<close>

lemma flash_after_reflash:
  assumes prep: "prepareFiles h code library mp = Inr files"
      and call: "discoverOrReflash h files mp = flashFirmware h mpd"
      and chip: "chip mpd = chip mp"
  shows "\<exists>ps. spawned (snd (flash h code library mp)) =
                spawned mpd @ flasherTrace h (chip mp) @ map Put ps \<and>
              (fst (flashFirmware h mp) \<noteq> Resolved \<longrightarrow>
                 ps = [] \<and> fst (flash h code library mp) = fst (flashFirmware h mp))"
    and "fst (flash h code library mp) \<noteq> Rejected Undefined"
proof -
  let ?r = "fst (flashFirmware h mpd)" and ?m = "snd (flashFirmware h mpd)"
  have r: "?r = fst (flashFirmware h mp)"
    using chip by (rule flashFirmware_result_chip)
  have F: "flash h code library mp = (if ?r = Resolved then writePhase h files ?m else (?r, ?m))"
    using prep call by (simp add: flash_def split_def)
  show "\<exists>ps. spawned (snd (flash h code library mp)) =
                spawned mpd @ flasherTrace h (chip mp) @ map Put ps \<and>
              (fst (flashFirmware h mp) \<noteq> Resolved \<longrightarrow>
                 ps = [] \<and> fst (flash h code library mp) = fst (flashFirmware h mp))"
  proof (cases "?r = Resolved")
    case True
    from writeFiles_trace [of h files "sendstd (line ''Writing files...'') ?m"]
    obtain ps where "spawned (snd (writePhase h files ?m)) = spawned ?m @ map Put ps"
      by auto
    with True F r chip show ?thesis
      by (intro exI [of _ ps]) simp
  next
    case False
    with F r chip show ?thesis
      by (intro exI [of _ "[]"]) simp
  qed
  show "fst (flash h code library mp) \<noteq> Rejected Undefined"
    using F flashFirmware_result [of h mpd]
      writeFiles_result [of h files "sendstd (line ''Writing files...'') ?m"]
    by (auto split: if_splits)
qed


lemma spaceFail_prepare:
  "prepareFiles spaceFailHost ''code'' [demoLib] (demoBoard ''esp32'') = Inr [demoMain, demoA]"
  by (simp add: prepareFiles_def host_defs constructor_def demoLib_def demoMain_def demoA_def)

lemma spaceFail_discover:
  "discoverOrReflash spaceFailHost [demoMain, demoA] (demoBoard ''esp32'') =
     (Resolved,
      (demoBoard ''esp32'')
        \<lparr>existedLibFile := [''boot.py'', ''main.py'', ''a.py''],
         sent := [line ''Try to enter raw REPL.'', line ''Try to check rest space.'',
                  line ''Could not enter raw REPL.'',
                  line ''Try to flash micro python firmware to fix.''],
         spawned := [Ls, Restspace, EraseFlash, WriteFlash]\<rparr>)"
  by (simp add: flash_defs host_defs run_defs)

lemma spaceFail_flash:
  "flash spaceFailHost ''code'' [demoLib] (demoBoard ''esp32'') =
     writePhase spaceFailHost [demoMain, demoA]
       ((demoBoard ''esp32'')
        \<lparr>existedLibFile := [''boot.py'', ''main.py'', ''a.py''],
         sent := [line ''Try to enter raw REPL.'', line ''Try to check rest space.'',
                  line ''Could not enter raw REPL.'',
                  line ''Try to flash micro python firmware to fix.''],
         spawned := [Ls, Restspace, EraseFlash, WriteFlash]\<rparr>)"
  by (simp add: flash_def spaceFail_prepare spaceFail_discover)


section \<open>The list of existing files after a reflash\<close>

text \<open>
  C1. The reflash that the space check triggers empties the list first (line 76); the
  reflash of the \<open>catch\<close> branch (lines 86 to 90) does not. In the run below the listing
  succeeds and reports \<open>boot.py\<close>, \<open>main.py\<close> and \<open>a.py\<close>, the space query exits
  with status 1, the firmware is erased and written, and the write loop then runs with
  the list of the erased file system: the library file \<open>a.py\<close> of the manifest is
  skipped and only \<open>main.py\<close> is written.
\<close>

theorem fallback_reflash_keeps_stale_list:
  "fst (flash spaceFailHost ''code'' [demoLib] (demoBoard ''esp32'')) = Resolved \<and>
   spawned (snd (flash spaceFailHost ''code'' [demoLib] (demoBoard ''esp32''))) =
     [Ls, Restspace, EraseFlash, WriteFlash, Put demoMain] \<and>
   existedLibFile (snd (flash spaceFailHost ''code'' [demoLib] (demoBoard ''esp32''))) =
     [''boot.py'', ''main.py'', ''a.py'']"
  unfolding spaceFail_flash
  by (simp add: writeFiles_Cons counted_def host_defs)

section \<open>The division by the block size\<close>

lemma scanLibraries_statSync [simp]:
  "scanLibraries (h\<lparr>statSync := s\<rparr>) libs acc = scanLibraries h libs acc"
  by (induction libs arbitrary: acc) (simp_all split: sum.splits)

lemma obmpyPut_statSync [simp]: "obmpyPut (h\<lparr>statSync := s\<rparr>) f mp = obmpyPut h f mp"
  by (simp add: obmpyPut_def)

lemma writeFiles_statSync [simp]:
  "writeFiles (h\<lparr>statSync := s\<rparr>) fs mp = writeFiles h fs mp"
  by (induction fs arbitrary: mp) (simp_all add: writeFiles_Cons)

lemma steps_statSync [simp]:
  "prepareFiles (h\<lparr>statSync := s\<rparr>) code library mp = prepareFiles h code library mp"
  "checkLibFileList (h\<lparr>statSync := s\<rparr>) mp = checkLibFileList h mp"
  "checkRestSpace (h\<lparr>statSync := s\<rparr>) mp = checkRestSpace h mp"
  "flashFirmware (h\<lparr>statSync := s\<rparr>) mp = flashFirmware h mp"
  "writePhase (h\<lparr>statSync := s\<rparr>) fs mp = writePhase h fs mp"
  by (simp_all add: prepareFiles_def checkLibFileList_def checkRestSpace_def flashFirmware_def
      espflashFirmware_def esp_erase_def esp_flash_def k210flashFirmware_def writePhase_def
      split: option.splits)








section \<open>Fatal failures\<close>

lemma discoverOrReflash_starts:
  assumes "reflashStarts h files mp"
  shows "\<exists>mpd. discoverOrReflash h files mp = flashFirmware h mpd \<and>
               spawned mpd = spawned mp @ discoveryTrace h \<and> chip mpd = chip mp"
proof (cases "discoveryFails h")
  case True
  then show ?thesis by (rule discoverOrReflash_fails)
next
  case False
  let ?m2 = "snd (checkRestSpace h (snd (checkLibFileList h mp)))"
  from False assms have ok: "snd (lsProc h) = ExitCode 0" "snd (restspaceProc h) = ExitCode 0"
    and j: "judgeReflashFirmware h ?m2 files (chip mp) \<noteq> Inr 0"
    by (simp_all add: reflashStarts_def)
  from ok have t: "tryDiscovery h files mp = reflashIfFull h files ?m2"
    by (simp add: tryDiscovery_def split_def Let_def)
  from ok have tr: "discoveryTrace h = [Ls, Restspace]"
    by (simp add: discoveryTrace_def)
  show ?thesis
  proof (cases "judgeReflashFirmware h ?m2 files (chip mp)")
    case (Inl err)
    let ?m = "sendstd (line ''Try to flash micro python firmware to fix.'')
                (sendstd (line ''Could not enter raw REPL.'') ?m2)"
    from Inl t have "discoverOrReflash h files mp = flashFirmware h ?m"
      by (simp add: discoverOrReflash_def reflashIfFull_def Let_def)
    moreover have "spawned ?m = spawned mp @ discoveryTrace h" "chip ?m = chip mp"
      by (simp_all add: tr)
    ultimately show ?thesis by blast
  next
    case (Inr r)
    with j have r: "r \<noteq> 0" by simp
    let ?m = "(sendstd (line (''Try to flash micropython firmware to '' @
                              ''refresh the memory space of the board.''))
                (sendstd (line ''The space of board is insufficient.'') ?m2))
              \<lparr>existedLibFile := []\<rparr>"
    from Inr r have ri: "reflashIfFull h files ?m2 =
        (if fst (flashFirmware h ?m) = Resolved then (Continue, snd (flashFirmware h ?m))
         else (Return (fst (flashFirmware h ?m)), snd (flashFirmware h ?m)))"
      by (simp add: reflashIfFull_def Let_def split_def)
    have "discoverOrReflash h files mp = flashFirmware h ?m"
      unfolding discoverOrReflash_def t ri by (simp add: prod_eq_iff)
    moreover have "spawned ?m = spawned mp @ discoveryTrace h" "chip ?m = chip mp"
      by (simp_all add: tr)
    ultimately show ?thesis by blast
  qed
qed

lemma flash_reflash_rejected:
  assumes "prepareFiles h code library mp = Inr files" and "reflashStarts h files mp"
      and "fst (flashFirmware h mp) = Rejected e"
  shows "fst (flash h code library mp) = Rejected e \<and>
         spawned (snd (flash h code library mp)) =
           spawned mp @ discoveryTrace h @ flasherTrace h (chip mp)"
proof -
  from discoverOrReflash_starts [OF assms(2)] obtain mpd where
    d: "discoverOrReflash h files mp = flashFirmware h mpd"
       "spawned mpd = spawned mp @ discoveryTrace h" "chip mpd = chip mp"
    by blast
  from flash_after_reflash(1) [OF assms(1) d(1) d(3)] d(2) assms(3) show ?thesis
    by auto
qed

lemma flashFirmware_unknown:
  "chip mp \<noteq> ''esp32'' \<Longrightarrow> chip mp \<noteq> ''esp8266'' \<Longrightarrow> chip mp \<noteq> ''k210'' \<Longrightarrow>
   flashFirmware h mp = (Rejected (Message ''unknown chip type''), mp)"
  by (simp add: flashFirmware_def)

lemma flashFirmware_esp:
  assumes "chip mp = ''esp32'' \<or> chip mp = ''esp8266''"
  shows "spawned (snd (flashFirmware h mp)) =
           spawned mp @ EraseFlash # (if snd (eraseProc h) = ExitCode 0 then [WriteFlash] else [])"
    and "exitsNonZero (snd (eraseProc h)) \<Longrightarrow>
           fst (flashFirmware h mp) = Rejected (Message ''esptool failed to erase'')"
    and "snd (eraseProc h) = ExitCode 0 \<Longrightarrow> exitsNonZero (snd (writeProc h)) \<Longrightarrow>
           fst (flashFirmware h mp) = Rejected (Message ''esptool failed flash'')"
    and "snd (eraseProc h) = ExitCode 0 \<Longrightarrow> snd (writeProc h) = ExitCode 0 \<Longrightarrow>
           fst (flashFirmware h mp) = Resolved"
    and "snd (eraseProc h) = LaunchError \<Longrightarrow> fst (flashFirmware h mp) = Unsettled"
  using assms
  by (auto simp: flashFirmware_def espflashFirmware_def esp_erase_def
      esp_flash_def exitsNonZero_def onExit_def split: ending.splits)

lemma flash_put_rejected:
  assumes "prepareFiles h code library mp = Inr (pre @ f # post)"
      and "discoverOrReflash h (pre @ f # post) mp = (Resolved, mp1)"
      and "fst (writeFiles h pre (sendstd (line ''Writing files...'') mp1)) = Resolved"
      and "counted (existedLibFile mp1) f"
      and "exitsNonZero (putProc h
             (spawned (snd (writeFiles h pre (sendstd (line ''Writing files...'') mp1)))) f)"
  shows "fst (flash h code library mp) = Rejected (Message ''obmpy failed to write'')"
proof -
  let ?m = "sendstd (line ''Writing files...'') mp1"
  from assms(5) have n: "putProc h (spawned (snd (writeFiles h pre ?m))) f \<noteq> ExitCode 0"
    by (auto simp: exitsNonZero_def)
  from assms(4) have c: "counted (existedLibFile ?m) f" by simp
  from writeFiles_failure [OF assms(3) c n, of post] assms(5)
  have "fst (writeFiles h (pre @ f # post) ?m) = Rejected (Message ''obmpy failed to write'')"
    by (simp add: onExit_nonzero)
  with flash_continue [OF assms(1,2)] show ?thesis
    by simp
qed

text \<open>
  C8, as amended. For a chip that is none of esp32, esp8266 and k210, \<open>flashFirmware\<close>
  rejects with \<open>unknown chip type\<close> and spawns nothing. For esp32 and esp8266 it spawns
  the eraser first and the writer only after the eraser has exited with status zero; a
  non-zero exit status of the eraser rejects with \<open>esptool failed to erase\<close>, one of
  the writer with \<open>esptool failed flash\<close>; an eraser that cannot be launched settles
  nothing. Whenever \<open>flash\<close> calls \<open>flashFirmware\<close> and it rejects, \<open>flash\<close> rejects
  with the same error and spawns nothing more. When the loop reaches a counted file
  whose \<open>put\<close> exits with a non-zero status, \<open>flash\<close> rejects with
  \<open>obmpy failed to write\<close>.
\<close>

theorem failures_are_fatal:
  "(chip m0 \<noteq> ''esp32'' \<and> chip m0 \<noteq> ''esp8266'' \<and> chip m0 \<noteq> ''k210'' \<longrightarrow>
      flashFirmware h0 m0 = (Rejected (Message ''unknown chip type''), m0)) \<and>
   (chip m1 = ''esp32'' \<or> chip m1 = ''esp8266'' \<longrightarrow>
      spawned (snd (flashFirmware h1 m1)) =
        spawned m1 @ EraseFlash # (if snd (eraseProc h1) = ExitCode 0 then [WriteFlash] else []) \<and>
      (exitsNonZero (snd (eraseProc h1)) \<longrightarrow>
         fst (flashFirmware h1 m1) = Rejected (Message ''esptool failed to erase'')) \<and>
      (snd (eraseProc h1) = ExitCode 0 \<and> exitsNonZero (snd (writeProc h1)) \<longrightarrow>
         fst (flashFirmware h1 m1) = Rejected (Message ''esptool failed flash'')) \<and>
      (snd (eraseProc h1) = ExitCode 0 \<and> snd (writeProc h1) = ExitCode 0 \<longrightarrow>
         fst (flashFirmware h1 m1) = Resolved) \<and>
      (snd (eraseProc h1) = LaunchError \<longrightarrow> fst (flashFirmware h1 m1) = Unsettled)) \<and>
   (prepareFiles h code library mp = Inr files \<and> reflashStarts h files mp \<and>
    fst (flashFirmware h mp) = Rejected e \<longrightarrow>
      fst (flash h code library mp) = Rejected e \<and>
      spawned (snd (flash h code library mp)) =
        spawned mp @ discoveryTrace h @ flasherTrace h (chip mp)) \<and>
   (prepareFiles h2 code2 library2 m2 = Inr (pre @ f # post) \<and>
    discoverOrReflash h2 (pre @ f # post) m2 = (Resolved, m3) \<and>
    fst (writeFiles h2 pre (sendstd (line ''Writing files...'') m3)) = Resolved \<and>
    counted (existedLibFile m3) f \<and>
    exitsNonZero (putProc h2
       (spawned (snd (writeFiles h2 pre (sendstd (line ''Writing files...'') m3)))) f) \<longrightarrow>
      fst (flash h2 code2 library2 m2) = Rejected (Message ''obmpy failed to write''))"
proof -
  have 1: "chip m0 \<noteq> ''esp32'' \<and> chip m0 \<noteq> ''esp8266'' \<and> chip m0 \<noteq> ''k210'' \<longrightarrow>
      flashFirmware h0 m0 = (Rejected (Message ''unknown chip type''), m0)"
    by (simp add: flashFirmware_unknown)
  have 2: "chip m1 = ''esp32'' \<or> chip m1 = ''esp8266'' \<longrightarrow>
      spawned (snd (flashFirmware h1 m1)) =
        spawned m1 @ EraseFlash # (if snd (eraseProc h1) = ExitCode 0 then [WriteFlash] else []) \<and>
      (exitsNonZero (snd (eraseProc h1)) \<longrightarrow>
         fst (flashFirmware h1 m1) = Rejected (Message ''esptool failed to erase'')) \<and>
      (snd (eraseProc h1) = ExitCode 0 \<and> exitsNonZero (snd (writeProc h1)) \<longrightarrow>
         fst (flashFirmware h1 m1) = Rejected (Message ''esptool failed flash'')) \<and>
      (snd (eraseProc h1) = ExitCode 0 \<and> snd (writeProc h1) = ExitCode 0 \<longrightarrow>
         fst (flashFirmware h1 m1) = Resolved) \<and>
      (snd (eraseProc h1) = LaunchError \<longrightarrow> fst (flashFirmware h1 m1) = Unsettled)"
    using flashFirmware_esp [of m1 h1] by blast
  have 3: "prepareFiles h code library mp = Inr files \<and> reflashStarts h files mp \<and>
    fst (flashFirmware h mp) = Rejected e \<longrightarrow>
      fst (flash h code library mp) = Rejected e \<and>
      spawned (snd (flash h code library mp)) =
        spawned mp @ discoveryTrace h @ flasherTrace h (chip mp)"
    using flash_reflash_rejected by blast
  have 4: "prepareFiles h2 code2 library2 m2 = Inr (pre @ f # post) \<and>
    discoverOrReflash h2 (pre @ f # post) m2 = (Resolved, m3) \<and>
    fst (writeFiles h2 pre (sendstd (line ''Writing files...'') m3)) = Resolved \<and>
    counted (existedLibFile m3) f \<and>
    exitsNonZero (putProc h2
       (spawned (snd (writeFiles h2 pre (sendstd (line ''Writing files...'') m3)))) f) \<longrightarrow>
      fst (flash h2 code2 library2 m2) = Rejected (Message ''obmpy failed to write'')"
    using flash_put_rejected by blast
  from 1 2 3 4 show ?thesis by blast
qed

lemma eraseFail_prepare:
  "prepareFiles eraseFailHost ''code'' [demoLib] (demoBoard ''esp32'') = Inr [demoMain, demoA]"
  by (simp add: prepareFiles_def host_defs constructor_def demoLib_def demoMain_def demoA_def)

theorem failures_are_fatal_witness:
  "flashFirmware demoHost (demoBoard ''stm32'') =
     (Rejected (Message ''unknown chip type''), demoBoard ''stm32'') \<and>
   exitsNonZero (snd (eraseProc eraseFailHost)) \<and>
   reflashStarts eraseFailHost [demoMain, demoA] (demoBoard ''esp32'') \<and>
   fst (flashFirmware eraseFailHost (demoBoard ''esp32'')) =
     Rejected (Message ''esptool failed to erase'') \<and>
   fst (flash eraseFailHost ''code'' [demoLib] (demoBoard ''esp32'')) =
     Rejected (Message ''esptool failed to erase'') \<and>
   spawned (snd (flash eraseFailHost ''code'' [demoLib] (demoBoard ''esp32''))) =
     [Ls, Restspace, EraseFlash] \<and>
   exitsNonZero (putProc failPutHost [Ls, Restspace] demoMain) \<and>
   fst (flash failPutHost ''code'' [demoLib] (demoBoard ''esp32'')) =
     Rejected (Message ''obmpy failed to write'')"
proof -
  let ?B = "demoBoard ''esp32''"
  let ?M1 = "?B\<lparr>bfree := 10, bsize := 16,
         sent := [line ''Try to enter raw REPL.'', line ''Try to check rest space.''],
         spawned := [Ls, Restspace]\<rparr>"
  let ?M = "sendstd (line ''Writing files...'') ?M1"
  note t = failures_are_fatal [of "demoBoard ''stm32''" demoHost ?B eraseFailHost eraseFailHost
      "''code''" "[demoLib]" ?B "[demoMain, demoA]" "Message ''esptool failed to erase''"
      failPutHost "''code''" "[demoLib]" ?B "[]" demoMain "[demoA]" ?M1]
  have c0: "chip (demoBoard ''stm32'') \<noteq> ''esp32'' \<and> chip (demoBoard ''stm32'') \<noteq> ''esp8266'' \<and>
            chip (demoBoard ''stm32'') \<noteq> ''k210''"
    by (simp add: demoBoard_def constructor_def)
  have c1: "chip ?B = ''esp32'' \<or> chip ?B = ''esp8266''"
    by (simp add: demoBoard_def constructor_def)
  have e: "exitsNonZero (snd (eraseProc eraseFailHost))"
    by (simp add: exitsNonZero_def eraseFailHost_def)
  have rs: "reflashStarts eraseFailHost [demoMain, demoA] ?B"
    by (simp add: reflashStarts_def discoveryFails_def exitsNonZero_def host_defs)
  have tr: "discoveryTrace eraseFailHost = [Ls, Restspace]"
    "flasherTrace eraseFailHost (chip ?B) = [EraseFlash]" "spawned ?B = []"
    by (simp_all add: discoveryTrace_def flasherTrace_def host_defs constructor_def)
  from t c0 have u: "flashFirmware demoHost (demoBoard ''stm32'') =
     (Rejected (Message ''unknown chip type''), demoBoard ''stm32'')"
    by blast
  from t c1 e have r: "fst (flashFirmware eraseFailHost ?B) =
     Rejected (Message ''esptool failed to erase'')"
    by blast
  from t eraseFail_prepare rs r
  have f: "fst (flash eraseFailHost ''code'' [demoLib] ?B) =
       Rejected (Message ''esptool failed to erase'') \<and>
     spawned (snd (flash eraseFailHost ''code'' [demoLib] ?B)) =
       spawned ?B @ discoveryTrace eraseFailHost @ flasherTrace eraseFailHost (chip ?B)"
    by blast
  have p: "exitsNonZero (putProc failPutHost [Ls, Restspace] demoMain)"
    by (simp add: exitsNonZero_def failPutHost_def)
  have w: "fst (writeFiles failPutHost [] ?M) = Resolved" "counted (existedLibFile ?M1) demoMain"
    "exitsNonZero (putProc failPutHost (spawned (snd (writeFiles failPutHost [] ?M))) demoMain)"
    using p by (simp_all add: counted_def)
  have pr: "prepareFiles failPutHost ''code'' [demoLib] ?B = Inr ([] @ demoMain # [demoA])"
    using failPut_prepare by simp
  have di: "discoverOrReflash failPutHost ([] @ demoMain # [demoA]) ?B = (Resolved, ?M1)"
    using failPut_discover by simp
  from t pr di w have g: "fst (flash failPutHost ''code'' [demoLib] ?B) =
      Rejected (Message ''obmpy failed to write'')"
    by blast
  from u e rs r f tr p g show ?thesis
    by simp
qed

lemma demo_prepare:
  "prepareFiles demoHost ''code'' [demoLib] (demoBoard ''stm32'') = Inr [demoMain, demoA]"
  by (simp add: prepareFiles_def host_defs constructor_def demoLib_def demoMain_def demoA_def)

lemma demo_discover:
  "discoverOrReflash demoHost [demoMain, demoA] (demoBoard ''stm32'') =
     (Resolved,
      (demoBoard ''stm32'')
        \<lparr>bfree := 10, bsize := 16,
         sent := [line ''Try to enter raw REPL.'', line ''Try to check rest space.''],
         spawned := [Ls, Restspace]\<rparr>)"
  by (simp add: flash_defs host_defs run_defs)

lemma demo_flash:
  "flash demoHost ''code'' [demoLib] (demoBoard ''stm32'') =
     writePhase demoHost [demoMain, demoA]
       ((demoBoard ''stm32'')
        \<lparr>bfree := 10, bsize := 16,
         sent := [line ''Try to enter raw REPL.'', line ''Try to check rest space.''],
         spawned := [Ls, Restspace]\<rparr>)"
  by (simp add: flash_def demo_prepare demo_discover)

text \<open>
  The claim as stated fails in two places. A run for an unknown chip whose board answers
  both queries and has room is not fatal: no reflash is attempted, the chip is never
  looked at, and both files are written. And a tool that cannot be launched emits no
  \<open>exit\<close> event, so nothing rejects.
\<close>

theorem unknown_chip_not_fatal:
  "chip (demoBoard ''stm32'') \<noteq> ''esp32'' \<and> chip (demoBoard ''stm32'') \<noteq> ''esp8266'' \<and>
   chip (demoBoard ''stm32'') \<noteq> ''k210'' \<and>
   fst (flash demoHost ''code'' [demoLib] (demoBoard ''stm32'')) = Resolved \<and>
   spawned (snd (flash demoHost ''code'' [demoLib] (demoBoard ''stm32''))) =
     [Ls, Restspace, Put demoMain, Put demoA] \<and>
   snd (eraseProc noEraserHost) = LaunchError \<and>
   fst (flashFirmware noEraserHost (demoBoard ''esp32'')) = Unsettled"
  unfolding demo_flash
  by (simp add: writeFiles_Cons counted_def host_defs constructor_def flashFirmware_def
      espflashFirmware_def esp_erase_def onExit_def)

end
